theory Spec2Isabelle
  imports Complex_Main "HOL-Library.Sublist"
begin

section \<open>JavaScript numbers and values\<close>

text \<open>
  The backend (\<^verbatim>\<open>src/backend/server.js\<close>) computes with JavaScript numbers. A number
  is modelled as NaN, one of the two infinities, or a finite value. Finite values are kept
  as exact reals: IEEE-754 rounding, overflow of finite arithmetic or of a long decimal
  literal to an infinity, and the sign of zero are not modelled. Which branch the code
  takes on NaN and on the infinities is modelled exactly. Where rounding itself decides a
  branch, in the distance and the ETA, the arithmetic is a parameter of the functions
  instead.
\<close>

datatype jsnum = NaN | PosInf | NegInf | Fin real

text \<open>
  A field of a JSON or url-encoded request body: absent (\<^verbatim>\<open>undefined\<close>), \<^verbatim>\<open>null\<close>, a
  boolean, a number or a string. Arrays and nested objects are outside the interface of
  the endpoints and are not modelled.
\<close>

datatype jsval = JUndefined | JNull | JBool bool | JNum jsnum | JStr string

fun isNaN :: "jsnum \<Rightarrow> bool" where
  "isNaN NaN = True"
| "isNaN _ = False"

fun js_neg :: "jsnum \<Rightarrow> jsnum" where
  "js_neg NaN = NaN"
| "js_neg PosInf = NegInf"
| "js_neg NegInf = PosInf"
| "js_neg (Fin x) = Fin (- x)"

text \<open>\<^verbatim>\<open>a + b\<close> on numbers.\<close>

fun js_add :: "jsnum \<Rightarrow> jsnum \<Rightarrow> jsnum" where
  "js_add (Fin x) (Fin y) = Fin (x + y)"
| "js_add NaN _ = NaN"
| "js_add _ NaN = NaN"
| "js_add PosInf NegInf = NaN"
| "js_add NegInf PosInf = NaN"
| "js_add PosInf _ = PosInf"
| "js_add NegInf _ = NegInf"
| "js_add (Fin x) PosInf = PosInf"
| "js_add (Fin x) NegInf = NegInf"

definition js_sub :: "jsnum \<Rightarrow> jsnum \<Rightarrow> jsnum" where
  "js_sub a b = js_add a (js_neg b)"

text \<open>\<^verbatim>\<open>a > b\<close> on numbers: false whenever an operand is NaN.\<close>

fun js_gt :: "jsnum \<Rightarrow> jsnum \<Rightarrow> bool" where
  "js_gt (Fin x) (Fin y) = (y < x)"
| "js_gt NaN _ = False"
| "js_gt _ NaN = False"
| "js_gt NegInf _ = False"
| "js_gt _ PosInf = False"
| "js_gt PosInf _ = True"
| "js_gt (Fin x) NegInf = True"

text \<open>\<^verbatim>\<open>Math.max(a, b)\<close>: NaN when an operand is NaN.\<close>

fun Math_max :: "jsnum \<Rightarrow> jsnum \<Rightarrow> jsnum" where
  "Math_max NaN _ = NaN"
| "Math_max _ NaN = NaN"
| "Math_max a b = (if js_gt b a then b else a)"

text \<open>Truthiness, as \<^verbatim>\<open>!x\<close> and \<^verbatim>\<open>x || y\<close> test it.\<close>

fun truthy_num :: "jsnum \<Rightarrow> bool" where
  "truthy_num NaN = False"
| "truthy_num (Fin x) = (x \<noteq> 0)"
| "truthy_num _ = True"

fun truthy :: "jsval \<Rightarrow> bool" where
  "truthy JUndefined = False"
| "truthy JNull = False"
| "truthy (JBool b) = b"
| "truthy (JNum n) = truthy_num n"
| "truthy (JStr s) = (s \<noteq> [])"

section \<open>parseFloat\<close>

text \<open>
  \<^verbatim>\<open>parseFloat\<close> is a built-in; it is modelled after ECMA-262: the argument is
  converted to a string, leading white space is dropped, and the longest prefix that is a
  \<^verbatim>\<open>StrDecimalLiteral\<close> gives the value; NaN when no prefix is one. Strings are byte
  strings here, so only the ASCII white space characters are recognised.
\<close>

definition is_digit :: "char \<Rightarrow> bool" where
  "is_digit c = (c \<in> set ''0123456789'')"

definition is_space :: "char \<Rightarrow> bool" where
  "is_space c = ((of_char c :: nat) \<in> {9, 10, 11, 12, 13, 32})"

definition digit_val :: "char \<Rightarrow> nat" where
  "digit_val c = of_char c - 48"

definition digits_val :: "string \<Rightarrow> nat" where
  "digits_val ds = foldl (\<lambda>a c. 10 * a + digit_val c) 0 ds"

definition pow10 :: "int \<Rightarrow> real" where
  "pow10 e = (if 0 \<le> e then 10 ^ nat e else 1 / 10 ^ nat (- e))"

text \<open>The digits after an exponent indicator, with their sign; 0 when there are none.\<close>

fun signed_digits :: "string \<Rightarrow> int" where
  "signed_digits [] = 0"
| "signed_digits (c # u) =
     (if c = CHR ''-'' then - int (digits_val (takeWhile is_digit u))
      else if c = CHR ''+'' then int (digits_val (takeWhile is_digit u))
      else int (digits_val (takeWhile is_digit (c # u))))"

text \<open>
  The value of the longest \<^verbatim>\<open>ExponentPart\<close> that starts the string; 0 when there is
  none (an \<^verbatim>\<open>e\<close> with no digit after it is not part of the literal).
\<close>

fun exponent_part :: "string \<Rightarrow> int" where
  "exponent_part [] = 0"
| "exponent_part (c # t) = (if c = CHR ''e'' \<or> c = CHR ''E'' then signed_digits t else 0)"

definition StrUnsignedDecimalLiteral :: "string \<Rightarrow> jsnum" where
  "StrUnsignedDecimalLiteral s =
     (if prefix ''Infinity'' s then PosInf
      else
        let ip = takeWhile is_digit s;
            r1 = dropWhile is_digit s;
            fp = (case r1 of [] \<Rightarrow> [] | c # t \<Rightarrow> if c = CHR ''.'' then takeWhile is_digit t else []);
            r2 = (case r1 of [] \<Rightarrow> [] | c # t \<Rightarrow> if c = CHR ''.'' then dropWhile is_digit t else r1)
        in if ip = [] \<and> fp = [] then NaN
           else Fin ((real (digits_val ip) + real (digits_val fp) / 10 ^ length fp)
                     * pow10 (exponent_part r2)))"

definition parseFloat_string :: "string \<Rightarrow> jsnum" where
  "parseFloat_string s =
     (case dropWhile is_space s of
        [] \<Rightarrow> NaN
      | c # u \<Rightarrow>
          if c = CHR ''-'' then js_neg (StrUnsignedDecimalLiteral u)
          else if c = CHR ''+'' then StrUnsignedDecimalLiteral u
          else StrUnsignedDecimalLiteral (c # u))"

text \<open>
  On a number, \<^verbatim>\<open>parseFloat\<close> parses the number's own rendering, which gives the number
  back; \<^verbatim>\<open>"undefined"\<close>, \<^verbatim>\<open>"null"\<close>, \<^verbatim>\<open>"true"\<close> and \<^verbatim>\<open>"false"\<close> start with no
  literal.
\<close>

fun parseFloat :: "jsval \<Rightarrow> jsnum" where
  "parseFloat (JStr s) = parseFloat_string s"
| "parseFloat (JNum n) = n"
| "parseFloat _ = NaN"

section \<open>Data model\<close>

text \<open>
  \<^verbatim>\<open>new Date().toISOString()\<close> is a read of the clock. The reading is an input of each
  operation, in milliseconds; the source stores its ISO-8601 rendering.
\<close>

type_synonym timestamp = nat

record stop =
  stop_name :: string
  stop_lat :: jsnum
  stop_lon :: jsnum

record route =
  route_ident :: string
  route_name :: string
  buses :: "string list"
  stops :: "stop list"

record location =
  device_id :: jsval
  lat :: jsnum
  lon :: jsnum
  speed :: jsnum
  route_id :: "string option"
  updated :: timestamp
  status :: string

text \<open>
  A JavaScript \<^verbatim>\<open>Map\<close> keeps its entries in insertion order; \<^verbatim>\<open>set\<close> on a key that
  is present replaces the value where it stands.
\<close>

fun map_set :: "('k \<times> 'v) list \<Rightarrow> 'k \<Rightarrow> 'v \<Rightarrow> ('k \<times> 'v) list" where
  "map_set [] k v = [(k, v)]"
| "map_set ((k', v') # m) k v = (if k' = k then (k, v) # m else (k', v') # map_set m k v)"

record state =
  busLocations :: "(jsval \<times> location) list"
  busRoutes :: "(string \<times> route) list"

definition sampleRoutes :: "route list" where
  "sampleRoutes =
     [\<lparr>route_ident = ''ROUTE_001'', route_name = ''City Center - Airport'',
        buses = [''BUS_101'', ''BUS_102''],
        stops = [\<lparr>stop_name = ''City Center'', stop_lat = Fin 11.1563, stop_lon = Fin 77.5932\<rparr>,
                 \<lparr>stop_name = ''Main Market'', stop_lat = Fin 11.1663, stop_lon = Fin 77.6032\<rparr>,
                 \<lparr>stop_name = ''University'', stop_lat = Fin 11.1763, stop_lon = Fin 77.6132\<rparr>,
                 \<lparr>stop_name = ''Airport'', stop_lat = Fin 11.1863, stop_lon = Fin 77.6232\<rparr>]\<rparr>,
      \<lparr>route_ident = ''ROUTE_002'', route_name = ''Railway Station - Tech Park'',
        buses = [''BUS_201'', ''BUS_202''],
        stops = [\<lparr>stop_name = ''Railway Station'', stop_lat = Fin 11.1463, stop_lon = Fin 77.5832\<rparr>,
                 \<lparr>stop_name = ''Shopping Mall'', stop_lat = Fin 11.1513, stop_lon = Fin 77.5932\<rparr>,
                 \<lparr>stop_name = ''Hospital'', stop_lat = Fin 11.1613, stop_lon = Fin 77.6032\<rparr>,
                 \<lparr>stop_name = ''Tech Park'', stop_lat = Fin 11.1713, stop_lon = Fin 77.6132\<rparr>]\<rparr>]"

section \<open>Start-up: seeding the two maps\<close>

text \<open>
  \<^verbatim>\<open>sampleRoutes.forEach\<close> at load time. \<^verbatim>\<open>route.stops[0].lat\<close> throws a TypeError on
  a route that has a bus and no stop: \<open>None\<close>. The clock is read once per bus; the model
  takes one reading for the whole start-up.
\<close>

definition seed_location :: "timestamp \<Rightarrow> route \<Rightarrow> string \<Rightarrow> location option" where
  "seed_location now r busId =
     (case stops r of
        [] \<Rightarrow> None
      | s0 # _ \<Rightarrow>
          Some \<lparr>device_id = JStr busId, lat = stop_lat s0, lon = stop_lon s0, speed = Fin 0,
                route_id = Some (route_ident r), updated = now, status = ''stopped''\<rparr>)"

fun seed_buses :: "timestamp \<Rightarrow> route \<Rightarrow> string list \<Rightarrow> state \<Rightarrow> state option" where
  "seed_buses now r [] s = Some s"
| "seed_buses now r (busId # rest) s =
     (case seed_location now r busId of
        None \<Rightarrow> None
      | Some l \<Rightarrow>
          seed_buses now r rest (s\<lparr>busLocations := map_set (busLocations s) (JStr busId) l\<rparr>))"

fun seed_routes :: "timestamp \<Rightarrow> route list \<Rightarrow> state \<Rightarrow> state option" where
  "seed_routes now [] s = Some s"
| "seed_routes now (r # rest) s =
     (case seed_buses now r (buses r)
             (s\<lparr>busRoutes := map_set (busRoutes s) (route_ident r) r\<rparr>) of
        None \<Rightarrow> None
      | Some s' \<Rightarrow> seed_routes now rest s')"

definition initial_state :: "timestamp \<Rightarrow> state option" where
  "initial_state now = seed_routes now sampleRoutes \<lparr>busLocations = [], busRoutes = []\<rparr>"

section \<open>POST /api/locations\<close>

datatype http_error =
    MissingRequiredFields  \<comment> \<open>400, \<^verbatim>\<open>Missing required fields: device_id, lat, lon\<close>\<close>
  | InvalidLatLon          \<comment> \<open>400, \<^verbatim>\<open>Invalid latitude or longitude values\<close>\<close>
  | BusNotFound            \<comment> \<open>404, \<^verbatim>\<open>Bus not found\<close>\<close>
  | MissingFromOrTo        \<comment> \<open>400, \<^verbatim>\<open>Missing from or to parameter\<close>\<close>
  | InternalError          \<comment> \<open>500, an exception thrown inside a handler\<close>

record ingest_body =
  body_device_id :: jsval
  body_lat :: jsval
  body_lon :: jsval
  body_speed :: jsval

text \<open>The loop over \<^verbatim>\<open>busRoutes.entries()\<close>: the first route that lists the bus.\<close>

fun find_route :: "(string \<times> route) list \<Rightarrow> jsval \<Rightarrow> string option" where
  "find_route [] d = None"
| "find_route ((i, r) # rest) d =
     (if d \<in> set (map JStr (buses r)) then Some i else find_route rest d)"

text \<open>\<^verbatim>\<open>parseFloat(speed) || 0\<close>\<close>

definition or_zero :: "jsnum \<Rightarrow> jsnum" where
  "or_zero n = (if truthy_num n then n else Fin 0)"

text \<open>
  The handler, on a parsed body and the clock reading \<open>now\<close>; it answers with an error
  or with the record it stored, and returns the state. Nothing in the \<^verbatim>\<open>try\<close> block
  throws on a body of these values, so its \<^verbatim>\<open>catch\<close> branch has no counterpart here.
\<close>

definition ingest :: "timestamp \<Rightarrow> ingest_body \<Rightarrow> state \<Rightarrow> (http_error + location) \<times> state" where
  "ingest now body s =
     (if \<not> truthy (body_device_id body) \<or> body_lat body = JUndefined \<or> body_lon body = JUndefined
      then (Inl MissingRequiredFields, s)
      else
        let parsedLat = parseFloat (body_lat body);
            parsedLon = parseFloat (body_lon body);
            parsedSpeed = or_zero (parseFloat (body_speed body))
        in if isNaN parsedLat \<or> isNaN parsedLon then (Inl InvalidLatLon, s)
           else
             let routeId = find_route (busRoutes s) (body_device_id body);
                 locationData =
                   \<lparr>device_id = body_device_id body, lat = parsedLat, lon = parsedLon,
                    speed = parsedSpeed, route_id = routeId, updated = now,
                    status = (if js_gt parsedSpeed (Fin 0) then ''active'' else ''stopped'')\<rparr>
             in (Inr locationData,
                 s\<lparr>busLocations := map_set (busLocations s) (body_device_id body) locationData\<rparr>))"

text \<open>
  The specification's \<^verbatim>\<open>InvalidCoordinate\<close> is what the handler answers when a
  coordinate is missing or is not a number: one of its two responses with status 400.
\<close>

definition is_InvalidCoordinate :: "http_error \<Rightarrow> bool" where
  "is_InvalidCoordinate e = (e = MissingRequiredFields \<or> e = InvalidLatLon)"

section \<open>GET /api/locations/:device_id\<close>

definition get_location :: "string \<Rightarrow> state \<Rightarrow> http_error + location" where
  "get_location d s =
     (case map_of (busLocations s) (JStr d) of
        None \<Rightarrow> Inl BusNotFound
      | Some l \<Rightarrow> Inr l)"

section \<open>GeoMath\<close>

text \<open>
  \<^verbatim>\<open>a * b\<close> and \<^verbatim>\<open>a / b\<close> on numbers, and the functions of \<^verbatim>\<open>Math\<close>, without
  rounding.
\<close>

fun js_mul :: "jsnum \<Rightarrow> jsnum \<Rightarrow> jsnum" where
  "js_mul (Fin x) (Fin y) = Fin (x * y)"
| "js_mul NaN _ = NaN"
| "js_mul _ NaN = NaN"
| "js_mul PosInf (Fin y) = (if y = 0 then NaN else if 0 < y then PosInf else NegInf)"
| "js_mul NegInf (Fin y) = (if y = 0 then NaN else if 0 < y then NegInf else PosInf)"
| "js_mul (Fin x) PosInf = (if x = 0 then NaN else if 0 < x then PosInf else NegInf)"
| "js_mul (Fin x) NegInf = (if x = 0 then NaN else if 0 < x then NegInf else PosInf)"
| "js_mul PosInf PosInf = PosInf"
| "js_mul PosInf NegInf = NegInf"
| "js_mul NegInf PosInf = NegInf"
| "js_mul NegInf NegInf = PosInf"

fun js_div :: "jsnum \<Rightarrow> jsnum \<Rightarrow> jsnum" where
  "js_div (Fin x) (Fin y) =
     (if y = 0 then (if x = 0 then NaN else if 0 < x then PosInf else NegInf)
      else Fin (x / y))"
| "js_div NaN _ = NaN"
| "js_div _ NaN = NaN"
| "js_div (Fin x) PosInf = Fin 0"
| "js_div (Fin x) NegInf = Fin 0"
| "js_div PosInf (Fin y) = (if 0 \<le> y then PosInf else NegInf)"
| "js_div NegInf (Fin y) = (if 0 \<le> y then NegInf else PosInf)"
| "js_div PosInf _ = NaN"
| "js_div NegInf _ = NaN"

fun Math_sin :: "jsnum \<Rightarrow> jsnum" where
  "Math_sin (Fin x) = Fin (sin x)"
| "Math_sin _ = NaN"

fun Math_cos :: "jsnum \<Rightarrow> jsnum" where
  "Math_cos (Fin x) = Fin (cos x)"
| "Math_cos _ = NaN"

fun Math_sqrt :: "jsnum \<Rightarrow> jsnum" where
  "Math_sqrt (Fin x) = (if x < 0 then NaN else Fin (sqrt x))"
| "Math_sqrt PosInf = PosInf"
| "Math_sqrt _ = NaN"

fun Math_atan2 :: "jsnum \<Rightarrow> jsnum \<Rightarrow> jsnum" where
  "Math_atan2 (Fin y) (Fin x) =
     (if 0 < x then Fin (arctan (y / x))
      else if x < 0 then (if 0 \<le> y then Fin (arctan (y / x) + pi) else Fin (arctan (y / x) - pi))
      else if 0 < y then Fin (pi / 2)
      else if y < 0 then Fin (- pi / 2)
      else Fin 0)"
| "Math_atan2 NaN _ = NaN"
| "Math_atan2 _ NaN = NaN"
| "Math_atan2 (Fin y) PosInf = Fin 0"
| "Math_atan2 (Fin y) NegInf = (if 0 \<le> y then Fin pi else Fin (- pi))"
| "Math_atan2 PosInf (Fin x) = Fin (pi / 2)"
| "Math_atan2 NegInf (Fin x) = Fin (- pi / 2)"
| "Math_atan2 PosInf PosInf = Fin (pi / 4)"
| "Math_atan2 PosInf NegInf = Fin (3 * pi / 4)"
| "Math_atan2 NegInf PosInf = Fin (- pi / 4)"
| "Math_atan2 NegInf NegInf = Fin (- 3 * pi / 4)"

text \<open>\<^verbatim>\<open>Math.round\<close>: the nearest integer, a tie going up.\<close>

fun Math_round :: "jsnum \<Rightarrow> jsnum" where
  "Math_round (Fin x) = Fin (of_int \<lfloor>x + 1 / 2\<rfloor>)"
| "Math_round n = n"

text \<open>
  The engine computes in IEEE-754 doubles, and the language leaves the accuracy of
  \<^verbatim>\<open>Math.sin\<close>, \<^verbatim>\<open>Math.cos\<close>, \<^verbatim>\<open>Math.sqrt\<close> and \<^verbatim>\<open>Math.atan2\<close> to the
  implementation. Rounding decides a branch here: for two nearly antipodal points, such as
  (8, 0) and (-8, 180), the haversine term \<open>a\<close> is computed as \<open>1.0000000000000002\<close>, so
  \<^verbatim>\<open>Math.sqrt(1-a)\<close> and the distance are NaN. The distance and the ETA therefore take
  the arithmetic as a parameter: the operations on numbers, the library functions and the
  rendering of a number in a template literal. What is proved of them holds for every
  arithmetic, that of the engine included. The comparisons \<^verbatim>\<open>===\<close> and \<^verbatim>\<open>>\<close> do not
  round and are not part of the parameter.
\<close>

record js_math =
  m_add :: "jsnum \<Rightarrow> jsnum \<Rightarrow> jsnum"
  m_sub :: "jsnum \<Rightarrow> jsnum \<Rightarrow> jsnum"
  m_mul :: "jsnum \<Rightarrow> jsnum \<Rightarrow> jsnum"
  m_div :: "jsnum \<Rightarrow> jsnum \<Rightarrow> jsnum"
  m_PI :: jsnum
  m_sin :: "jsnum \<Rightarrow> jsnum"
  m_cos :: "jsnum \<Rightarrow> jsnum"
  m_sqrt :: "jsnum \<Rightarrow> jsnum"
  m_atan2 :: "jsnum \<Rightarrow> jsnum \<Rightarrow> jsnum"
  m_round :: "jsnum \<Rightarrow> jsnum"
  m_toString :: "jsnum \<Rightarrow> string"

text \<open>Haversine formula to calculate distance between two points.\<close>

definition calculateDistance :: "js_math \<Rightarrow> jsnum \<Rightarrow> jsnum \<Rightarrow> jsnum \<Rightarrow> jsnum \<Rightarrow> jsnum" where
  "calculateDistance fp lat1 lon1 lat2 lon2 =
     (let R = Fin 6371;
          dLat = m_div fp (m_mul fp (m_sub fp lat2 lat1) (m_PI fp)) (Fin 180);
          dLon = m_div fp (m_mul fp (m_sub fp lon2 lon1) (m_PI fp)) (Fin 180);
          a = m_add fp
                (m_mul fp (m_sin fp (m_div fp dLat (Fin 2))) (m_sin fp (m_div fp dLat (Fin 2))))
                (m_mul fp
                  (m_mul fp
                    (m_mul fp (m_cos fp (m_div fp (m_mul fp lat1 (m_PI fp)) (Fin 180)))
                              (m_cos fp (m_div fp (m_mul fp lat2 (m_PI fp)) (Fin 180))))
                    (m_sin fp (m_div fp dLon (Fin 2))))
                  (m_sin fp (m_div fp dLon (Fin 2))));
          c = m_mul fp (Fin 2)
                (m_atan2 fp (m_sqrt fp a) (m_sqrt fp (m_sub fp (Fin 1) a)))
      in m_mul fp R c)"

text \<open>
  Calculate ETA to a destination. \<open>etaMinutes\<close> is the local constant of that name:
  the rounded minutes as the arithmetic computes them.
\<close>

definition etaMinutes :: "js_math \<Rightarrow> jsnum \<Rightarrow> jsnum \<Rightarrow> jsnum \<Rightarrow> jsnum \<Rightarrow> jsnum \<Rightarrow> jsnum" where
  "etaMinutes fp currentLat currentLon destLat destLon speed' =
     (let distance = calculateDistance fp currentLat currentLon destLat destLon;
          etaHours = m_div fp distance speed'
      in m_round fp (m_mul fp etaHours (Fin 60)))"

definition calculateETA :: "js_math \<Rightarrow> jsnum \<Rightarrow> jsnum \<Rightarrow> jsnum \<Rightarrow> jsnum \<Rightarrow> jsnum \<Rightarrow> string" where
  "calculateETA fp currentLat currentLon destLat destLon speed' =
     (if speed' = Fin 0 then ''Stopped''
      else
        let minutes = etaMinutes fp currentLat currentLon destLat destLon speed'
        in if js_gt minutes (Fin 0) then m_toString fp minutes @ '' min''
           else ''Arrived'')"

text \<open>The decimal digits of a natural number.\<close>

fun digits_of :: "nat \<Rightarrow> string" where
  "digits_of n =
     (if n < 10 then [''0123456789'' ! n]
      else digits_of (n div 10) @ [''0123456789'' ! (n mod 10)])"

declare digits_of.simps [simp del]

text \<open>
  The rendering of a number in a template literal, where it is plain: NaN, the
  infinities, and a whole number of magnitude below \<open>2\<^sup>5\<^sup>3\<close>, which JavaScript prints
  as its decimal digits. The rendering of a fraction or of a larger number depends on the
  double at hand and is left unspecified.
\<close>

fun Number_toString :: "jsnum \<Rightarrow> string" where
  "Number_toString NaN = ''NaN''"
| "Number_toString PosInf = ''Infinity''"
| "Number_toString NegInf = ''-Infinity''"
| "Number_toString (Fin x) =
     (if of_int \<lfloor>x\<rfloor> = x \<and> \<bar>x\<bar> < 2 ^ 53
      then (if x < 0 then CHR ''-'' # digits_of (nat \<lfloor>- x\<rfloor>) else digits_of (nat \<lfloor>x\<rfloor>))
      else undefined)"

text \<open>
  The arithmetic with no rounding, for evaluating concrete calls: the operations of the
  previous sections, and \<open>\<pi>\<close> itself for \<^verbatim>\<open>Math.PI\<close>. At the inputs evaluated below,
  the doubles take the same branches and give the same rounded minutes.
\<close>

definition exact_math :: js_math where
  "exact_math =
     \<lparr>m_add = js_add, m_sub = js_sub, m_mul = js_mul, m_div = js_div, m_PI = Fin pi,
      m_sin = Math_sin, m_cos = Math_cos, m_sqrt = Math_sqrt, m_atan2 = Math_atan2,
      m_round = Math_round, m_toString = Number_toString\<rparr>"

section \<open>GET /api/search\<close>

text \<open>\<^verbatim>\<open>toLowerCase\<close> on the ASCII letters; strings are byte strings here.\<close>

definition lower_char :: "char \<Rightarrow> char" where
  "lower_char c =
     (case map_of (zip ''ABCDEFGHIJKLMNOPQRSTUVWXYZ'' ''abcdefghijklmnopqrstuvwxyz'') c of
        None \<Rightarrow> c
      | Some l \<Rightarrow> l)"

definition toLowerCase :: "string \<Rightarrow> string" where
  "toLowerCase s = map lower_char s"

text \<open>\<^verbatim>\<open>name.includes(sub)\<close>: \<open>sub\<close> starts at some position of \<open>name\<close>.\<close>

fun includes_str :: "string \<Rightarrow> string \<Rightarrow> bool" where
  "includes_str [] sub = (sub = [])"
| "includes_str (c # cs) sub = (prefix sub (c # cs) \<or> includes_str cs sub)"

definition route_matches :: "string \<Rightarrow> string \<Rightarrow> route \<Rightarrow> bool" where
  "route_matches from to r =
     (let stopNames = map (\<lambda>stop. toLowerCase (stop_name stop)) (stops r)
      in list_ex (\<lambda>name. includes_str name (toLowerCase from)) stopNames \<and>
         list_ex (\<lambda>name. includes_str name (toLowerCase to)) stopNames)"

record bus_result =
  bus_id :: string
  bus_route :: string
  bus_location :: "location option"
  bus_eta :: string

record route_result =
  res_route_id :: string
  res_route_name :: string
  res_buses :: "bus_result list"
  res_stops :: "stop list"

text \<open>
  One bus of a matching route. \<^verbatim>\<open>route.stops[route.stops.length - 1].lat\<close> is evaluated
  only when the bus has a location, and throws a TypeError on a route with no stop:
  \<open>None\<close>.
\<close>

definition bus_entry :: "js_math \<Rightarrow> state \<Rightarrow> route \<Rightarrow> string \<Rightarrow> bus_result option" where
  "bus_entry fp s r busId =
     (case map_of (busLocations s) (JStr busId) of
        None \<Rightarrow>
          Some \<lparr>bus_id = busId, bus_route = route_name r, bus_location = None,
                bus_eta = ''Unknown''\<rparr>
      | Some location \<Rightarrow>
          (case stops r of
             [] \<Rightarrow> None
           | _ # _ \<Rightarrow>
               Some \<lparr>bus_id = busId, bus_route = route_name r, bus_location = Some location,
                     bus_eta = calculateETA fp (lat location) (lon location)
                                 (stop_lat (last (stops r))) (stop_lon (last (stops r)))
                                 (speed location)\<rparr>))"

definition route_entry :: "js_math \<Rightarrow> state \<Rightarrow> route \<Rightarrow> route_result option" where
  "route_entry fp s r =
     (case those (map (bus_entry fp s r) (buses r)) of
        None \<Rightarrow> None
      | Some routeBuses \<Rightarrow>
          Some \<lparr>res_route_id = route_ident r, res_route_name = route_name r,
                res_buses = routeBuses, res_stops = stops r\<rparr>)"

definition matchingRoutes :: "string \<Rightarrow> string \<Rightarrow> state \<Rightarrow> route list" where
  "matchingRoutes from to s = filter (route_matches from to) (map snd (busRoutes s))"

text \<open>
  The query parameters are strings, or absent. An exception thrown inside the handler is
  answered by the framework with status 500.
\<close>

definition search ::
  "js_math \<Rightarrow> string option \<Rightarrow> string option \<Rightarrow> state \<Rightarrow> http_error + route_result list" where
  "search fp from to s =
     (case from of
        None \<Rightarrow> Inl MissingFromOrTo
      | Some f \<Rightarrow>
          (case to of
             None \<Rightarrow> Inl MissingFromOrTo
           | Some t \<Rightarrow>
               if f = [] \<or> t = [] then Inl MissingFromOrTo
               else
                 (case those (map (route_entry fp s) (matchingRoutes f t s)) of
                    None \<Rightarrow> Inl InternalError
                  | Some results \<Rightarrow> Inr results)))"

section \<open>The simulation timer\<close>

text \<open>
  What one visit of an active record reads from outside: three draws of
  \<^verbatim>\<open>Math.random()\<close> and the clock.
\<close>

record sim_input =
  rnd_lat :: real
  rnd_lon :: real
  rnd_speed :: real
  clock :: timestamp

text \<open>\<^verbatim>\<open>Math.random()\<close> returns a number that is at least 0 and less than 1.\<close>

definition valid_draws :: "sim_input \<Rightarrow> bool" where
  "valid_draws e =
     (0 \<le> rnd_lat e \<and> rnd_lat e < 1 \<and> 0 \<le> rnd_lon e \<and> rnd_lon e < 1 \<and>
      0 \<le> rnd_speed e \<and> rnd_speed e < 1)"

text \<open>The body of the \<^verbatim>\<open>if (location.status === 'active')\<close> branch.\<close>

definition move :: "sim_input \<Rightarrow> location \<Rightarrow> location" where
  "move e location =
     (let latChange = js_mul (js_sub (Fin (rnd_lat e)) (Fin 0.5)) (Fin 0.001);
          lonChange = js_mul (js_sub (Fin (rnd_lon e)) (Fin 0.5)) (Fin 0.001)
      in location
           \<lparr>lat := js_add (lat location) latChange,
            lon := js_add (lon location) lonChange,
            speed := Math_max (Fin 0)
                       (js_add (speed location)
                          (js_mul (js_sub (Fin (rnd_speed e)) (Fin 0.5)) (Fin 10))),
            updated := clock e\<rparr>)"

text \<open>
  \<^verbatim>\<open>busLocations.forEach\<close>, in insertion order; \<open>i\<close> counts the active records
  visited so far, the \<open>i\<close>-th of which reads \<open>env i\<close>.
\<close>

fun simulate_entries ::
  "(nat \<Rightarrow> sim_input) \<Rightarrow> nat \<Rightarrow> (jsval \<times> location) list \<Rightarrow> (jsval \<times> location) list" where
  "simulate_entries env i [] = []"
| "simulate_entries env i ((busId, location) # rest) =
     (if status location = ''active''
      then (busId, move (env i) location) # simulate_entries env (Suc i) rest
      else (busId, location) # simulate_entries env i rest)"

text \<open>One run of the interval callback of \<^verbatim>\<open>simulateBusMovement\<close>.\<close>

definition simulateBusMovement :: "(nat \<Rightarrow> sim_input) \<Rightarrow> state \<Rightarrow> state" where
  "simulateBusMovement env s = s\<lparr>busLocations := simulate_entries env 0 (busLocations s)\<rparr>"

section \<open>Evaluation and the two maps\<close>

lemmas parse_defs = parseFloat_string_def StrUnsignedDecimalLiteral_def is_space_def
  is_digit_def digits_val_def digit_val_def pow10_def

lemmas init_defs = initial_state_def sampleRoutes_def seed_location_def

lemma map_of_map_set: "map_of (map_set m k v) k' = (if k' = k then Some v else map_of m k')"
  by (induction m) auto

lemma busRoutes_ingest: "busRoutes (snd (ingest now body s)) = busRoutes s"
  by (simp add: ingest_def Let_def)

section \<open>Ingest followed by a point lookup\<close>

text \<open>
  Claim C2. For a non-empty vehicle id \<open>v\<close> and a body whose \<open>lat\<close> and \<open>lon\<close> parse to
  numbers, \<open>ingest\<close> answers the record built from this call (the parsed \<open>lat\<close>, \<open>lon\<close>
  and \<open>speed\<close>, the route resolved for \<open>v\<close>, the status derived from the speed), and
  \<open>get_location v\<close> on the resulting state returns exactly that record, whatever the store
  held before. In particular, after any earlier ingest \<open>body0\<close> (for \<open>v\<close> or not, accepted or
  not), the lookup returns the record of the later call alone.
\<close>

theorem ingest_then_get_location:
  assumes "v \<noteq> []" and "body_device_id body = JStr v"
    and "\<not> isNaN (parseFloat (body_lat body))" and "\<not> isNaN (parseFloat (body_lon body))"
  shows "fst (ingest now body s) =
           Inr \<lparr>device_id = JStr v, lat = parseFloat (body_lat body),
                lon = parseFloat (body_lon body),
                speed = or_zero (parseFloat (body_speed body)),
                route_id = find_route (busRoutes s) (JStr v), updated = now,
                status = (if js_gt (or_zero (parseFloat (body_speed body))) (Fin 0)
                          then ''active'' else ''stopped'')\<rparr>
       \<and> get_location v (snd (ingest now body s)) = fst (ingest now body s)
       \<and> get_location v (snd (ingest now body (snd (ingest before body0 s)))) =
           Inr \<lparr>device_id = JStr v, lat = parseFloat (body_lat body),
                lon = parseFloat (body_lon body),
                speed = or_zero (parseFloat (body_speed body)),
                route_id = find_route (busRoutes s) (JStr v), updated = now,
                status = (if js_gt (or_zero (parseFloat (body_speed body))) (Fin 0)
                          then ''active'' else ''stopped'')\<rparr>"
proof -
  have present: "body_lat body \<noteq> JUndefined" "body_lon body \<noteq> JUndefined"
    using assms(3,4) by auto
  have one: "\<And>s'. ingest now body s' =
      (Inr \<lparr>device_id = JStr v, lat = parseFloat (body_lat body),
                lon = parseFloat (body_lon body),
                speed = or_zero (parseFloat (body_speed body)),
                route_id = find_route (busRoutes s') (JStr v), updated = now,
                status = (if js_gt (or_zero (parseFloat (body_speed body))) (Fin 0)
                          then ''active'' else ''stopped'')\<rparr>,
       s'\<lparr>busLocations := map_set (busLocations s') (JStr v)
           \<lparr>device_id = JStr v, lat = parseFloat (body_lat body),
                lon = parseFloat (body_lon body),
                speed = or_zero (parseFloat (body_speed body)),
                route_id = find_route (busRoutes s') (JStr v), updated = now,
                status = (if js_gt (or_zero (parseFloat (body_speed body))) (Fin 0)
                          then ''active'' else ''stopped'')\<rparr>\<rparr>)"
    using assms present by (simp add: ingest_def Let_def)
  show ?thesis
    by (simp add: one get_location_def map_of_map_set busRoutes_ingest)
qed

theorem ingest_then_get_location_witness:
  "get_location ''BUS_101''
     (snd (ingest 2000
        \<lparr>body_device_id = JStr ''BUS_101'', body_lat = JStr ''11.2'', body_lon = JNum (Fin 77.6),
         body_speed = JNum (Fin 35)\<rparr>
        (snd (ingest 1000
          \<lparr>body_device_id = JStr ''BUS_101'', body_lat = JNum (Fin 10), body_lon = JNum (Fin 70),
           body_speed = JUndefined\<rparr>
          (the (initial_state 0)))))) =
   Inr \<lparr>device_id = JStr ''BUS_101'', lat = Fin 11.2, lon = Fin 77.6, speed = Fin 35,
        route_id = Some ''ROUTE_001'', updated = 2000, status = ''active''\<rparr>"
  using ingest_then_get_location [of "''BUS_101''"
      "\<lparr>body_device_id = JStr ''BUS_101'', body_lat = JStr ''11.2'', body_lon = JNum (Fin 77.6),
         body_speed = JNum (Fin 35)\<rparr>" 2000 "the (initial_state 0)" 1000
      "\<lparr>body_device_id = JStr ''BUS_101'', body_lat = JNum (Fin 10), body_lon = JNum (Fin 70),
           body_speed = JUndefined\<rparr>"]
  by (simp add: parse_defs init_defs or_zero_def)

section \<open>Rejected samples\<close>

text \<open>
  Claim C4. When \<open>lat\<close> or \<open>lon\<close> is missing or does not parse to a number (as
  \<^verbatim>\<open>"not-a-number"\<close>), \<open>ingest\<close> fails with one of the two status-400 answers that
  make up \<^verbatim>\<open>InvalidCoordinate\<close> (the first when a required field is missing, the
  second otherwise) and returns the state it was given: every lookup, for this vehicle id
  or another, gives what it gave before.
\<close>

theorem ingest_invalid_leaves_store:
  assumes "body_lat body = JUndefined \<or> body_lon body = JUndefined \<or>
           isNaN (parseFloat (body_lat body)) \<or> isNaN (parseFloat (body_lon body))"
  shows "fst (ingest now body s) =
           Inl (if truthy (body_device_id body) \<and> body_lat body \<noteq> JUndefined \<and>
                   body_lon body \<noteq> JUndefined
                then InvalidLatLon else MissingRequiredFields) \<and>
         (\<exists>e. fst (ingest now body s) = Inl e \<and> is_InvalidCoordinate e) \<and>
         snd (ingest now body s) = s \<and>
         (\<forall>d. get_location d (snd (ingest now body s)) = get_location d s)"
  using assms by (auto simp add: ingest_def Let_def is_InvalidCoordinate_def)

theorem ingest_invalid_leaves_store_witness:
  "fst (ingest 1000
          \<lparr>body_device_id = JStr ''BUS_101'', body_lat = JStr ''not-a-number'',
           body_lon = JNum (Fin 77.6), body_speed = JNum (Fin 35)\<rparr>
          (the (initial_state 0))) = Inl InvalidLatLon \<and>
   get_location ''BUS_101''
     (snd (ingest 1000
          \<lparr>body_device_id = JStr ''BUS_101'', body_lat = JStr ''not-a-number'',
           body_lon = JNum (Fin 77.6), body_speed = JNum (Fin 35)\<rparr>
          (the (initial_state 0)))) =
   Inr \<lparr>device_id = JStr ''BUS_101'', lat = Fin 11.1563, lon = Fin 77.5932, speed = Fin 0,
        route_id = Some ''ROUTE_001'', updated = 0, status = ''stopped''\<rparr>"
  using ingest_invalid_leaves_store [of
      "\<lparr>body_device_id = JStr ''BUS_101'', body_lat = JStr ''not-a-number'',
           body_lon = JNum (Fin 77.6), body_speed = JNum (Fin 35)\<rparr>" 1000 "the (initial_state 0)"]
  by (simp add: parse_defs init_defs get_location_def)

text \<open>
  Claim C5, as amended. The handler tests the parsed coordinates with \<^verbatim>\<open>isNaN\<close>: when
  \<open>lat\<close> or \<open>lon\<close> is missing or parses to NaN, \<open>ingest\<close> fails with
  \<^verbatim>\<open>InvalidCoordinate\<close> and writes nothing. A coordinate that parses to \<open>Infinity\<close> or
  \<open>-Infinity\<close> (as the strings \<^verbatim>\<open>"Infinity"\<close> and \<^verbatim>\<open>"-Infinity"\<close> do) is not rejected:
  with a vehicle id present and neither coordinate NaN, \<open>ingest\<close> succeeds and stores the
  parsed coordinates as they are: the store then holds, under the vehicle id, the record
  that \<open>ingest\<close> answered.
\<close>

theorem ingest_rejects_NaN_only:
  "(isNaN (parseFloat (body_lat body)) \<or> isNaN (parseFloat (body_lon body)) \<longrightarrow>
      (\<exists>e. fst (ingest now body s) = Inl e \<and> is_InvalidCoordinate e) \<and>
      snd (ingest now body s) = s) \<and>
   (truthy (body_device_id body) \<and> \<not> isNaN (parseFloat (body_lat body)) \<and>
    \<not> isNaN (parseFloat (body_lon body)) \<longrightarrow>
      (\<exists>r. ingest now body s =
             (Inr r, s\<lparr>busLocations := map_set (busLocations s) (body_device_id body) r\<rparr>) \<and>
           map_of (busLocations (snd (ingest now body s))) (body_device_id body) = Some r \<and>
           lat r = parseFloat (body_lat body) \<and> lon r = parseFloat (body_lon body))) \<and>
   parseFloat (JStr ''Infinity'') = PosInf \<and> parseFloat (JStr ''-Infinity'') = NegInf"
  by (auto simp add: ingest_def Let_def is_InvalidCoordinate_def parse_defs map_of_map_set)

theorem ingest_rejects_NaN_only_witness:
  "(\<exists>e. fst (ingest 1000
          \<lparr>body_device_id = JStr ''BUS_101'', body_lat = JStr ''abc'',
           body_lon = JNum (Fin 77.6), body_speed = JNum (Fin 35)\<rparr>
          (the (initial_state 0))) = Inl e \<and> is_InvalidCoordinate e) \<and>
   (\<exists>r. fst (ingest 1000
          \<lparr>body_device_id = JStr ''BUS_101'', body_lat = JNum (Fin 11.2),
           body_lon = JStr ''-Infinity'', body_speed = JNum (Fin 35)\<rparr>
          (the (initial_state 0))) = Inr r \<and>
        get_location ''BUS_101''
          (snd (ingest 1000
            \<lparr>body_device_id = JStr ''BUS_101'', body_lat = JNum (Fin 11.2),
             body_lon = JStr ''-Infinity'', body_speed = JNum (Fin 35)\<rparr>
            (the (initial_state 0)))) = Inr r \<and>
        lat r = Fin 11.2 \<and> lon r = NegInf)"
  using ingest_rejects_NaN_only [of
          "\<lparr>body_device_id = JStr ''BUS_101'', body_lat = JStr ''abc'',
           body_lon = JNum (Fin 77.6), body_speed = JNum (Fin 35)\<rparr>" 1000 "the (initial_state 0)"]
        ingest_rejects_NaN_only [of
          "\<lparr>body_device_id = JStr ''BUS_101'', body_lat = JNum (Fin 11.2),
           body_lon = JStr ''-Infinity'', body_speed = JNum (Fin 35)\<rparr>" 1000 "the (initial_state 0)"]
  by (auto simp add: parse_defs get_location_def)

text \<open>
  The claim as it was stated fails on \<^verbatim>\<open>lat = "Infinity"\<close>: the sample is accepted, and
  the lookup that follows returns a record whose \<open>lat\<close> is infinite.
\<close>

theorem ingest_Infinity_counterexample:
  "fst (ingest 1000
          \<lparr>body_device_id = JStr ''BUS_101'', body_lat = JStr ''Infinity'',
           body_lon = JNum (Fin 77.6), body_speed = JNum (Fin 35)\<rparr>
          (the (initial_state 0))) =
     Inr \<lparr>device_id = JStr ''BUS_101'', lat = PosInf, lon = Fin 77.6, speed = Fin 35,
          route_id = Some ''ROUTE_001'', updated = 1000, status = ''active''\<rparr> \<and>
   get_location ''BUS_101''
     (snd (ingest 1000
          \<lparr>body_device_id = JStr ''BUS_101'', body_lat = JStr ''Infinity'',
           body_lon = JNum (Fin 77.6), body_speed = JNum (Fin 35)\<rparr>
          (the (initial_state 0)))) =
     Inr \<lparr>device_id = JStr ''BUS_101'', lat = PosInf, lon = Fin 77.6, speed = Fin 35,
          route_id = Some ''ROUTE_001'', updated = 1000, status = ''active''\<rparr>"
  by (simp add: parse_defs init_defs ingest_def get_location_def or_zero_def Let_def)

section \<open>Partially numeric coordinates\<close>

text \<open>
  Claim C10. A \<open>lat\<close> string with a numeric prefix and trailing characters that are not
  numeric is accepted: for \<^verbatim>\<open>"12.5abc"\<close>, with a vehicle id present and a \<open>lon\<close> that
  parses to a number, \<open>ingest\<close> succeeds, and the store then holds, under the vehicle
  id, the record that \<open>ingest\<close> answered, whose \<open>lat\<close> is the prefix 12.5.
\<close>

theorem ingest_numeric_prefix:
  assumes "truthy d" and "\<not> isNaN (parseFloat lo)"
  shows "\<exists>r. ingest now \<lparr>body_device_id = d, body_lat = JStr ''12.5abc'', body_lon = lo,
                         body_speed = sp\<rparr> s =
               (Inr r, s\<lparr>busLocations := map_set (busLocations s) d r\<rparr>) \<and>
             map_of (busLocations
                       (snd (ingest now \<lparr>body_device_id = d, body_lat = JStr ''12.5abc'',
                                         body_lon = lo, body_speed = sp\<rparr> s))) d = Some r \<and>
             lat r = Fin 12.5"
proof -
  have "lo \<noteq> JUndefined" using assms(2) by auto
  moreover have "parseFloat (JStr ''12.5abc'') = Fin 12.5" by (simp add: parse_defs)
  ultimately show ?thesis using assms by (simp add: ingest_def Let_def map_of_map_set)
qed

theorem ingest_numeric_prefix_witness:
  "get_location ''BUS_101''
     (snd (ingest 1000 \<lparr>body_device_id = JStr ''BUS_101'', body_lat = JStr ''12.5abc'',
                         body_lon = JStr ''77.6'', body_speed = JStr ''35''\<rparr>
             (the (initial_state 0)))) =
     Inr \<lparr>device_id = JStr ''BUS_101'', lat = Fin 12.5, lon = Fin 77.6, speed = Fin 35,
          route_id = Some ''ROUTE_001'', updated = 1000, status = ''active''\<rparr>"
proof -
  obtain r where i: "ingest 1000 \<lparr>body_device_id = JStr ''BUS_101'', body_lat = JStr ''12.5abc'',
                         body_lon = JStr ''77.6'', body_speed = JStr ''35''\<rparr>
             (the (initial_state 0)) =
         (Inr r, (the (initial_state 0))\<lparr>busLocations :=
             map_set (busLocations (the (initial_state 0))) (JStr ''BUS_101'') r\<rparr>)"
    and m: "map_of (busLocations
              (snd (ingest 1000 \<lparr>body_device_id = JStr ''BUS_101'', body_lat = JStr ''12.5abc'',
                         body_lon = JStr ''77.6'', body_speed = JStr ''35''\<rparr>
             (the (initial_state 0))))) (JStr ''BUS_101'') = Some r"
    and "lat r = Fin 12.5"
    using ingest_numeric_prefix [of "JStr ''BUS_101''" "JStr ''77.6''" 1000 "JStr ''35''"
        "the (initial_state 0)"]
    by (auto simp add: parse_defs)
  have "r = \<lparr>device_id = JStr ''BUS_101'', lat = Fin 12.5, lon = Fin 77.6, speed = Fin 35,
          route_id = Some ''ROUTE_001'', updated = 1000, status = ''active''\<rparr>"
    using i by (simp add: ingest_def init_defs parse_defs or_zero_def Let_def)
  then show ?thesis using m by (simp add: get_location_def)
qed

section \<open>The store at start-up\<close>

text \<open>
  Claim C8, as amended. Start-up seeds the store: in the initial state \<open>get_location\<close>
  succeeds for each of the four vehicle ids listed in the pre-seeded routes, with a
  record at the first stop of the vehicle's route, speed 0 and status \<open>stopped\<close>; for
  every other vehicle id it fails with \<^verbatim>\<open>NotFound\<close>.
\<close>

theorem initial_get_location:
  "\<exists>s. initial_state now = Some s \<and>
       (\<forall>d. get_location d s =
          (if d = ''BUS_101'' \<or> d = ''BUS_102''
           then Inr \<lparr>device_id = JStr d, lat = Fin 11.1563, lon = Fin 77.5932, speed = Fin 0,
                     route_id = Some ''ROUTE_001'', updated = now, status = ''stopped''\<rparr>
           else if d = ''BUS_201'' \<or> d = ''BUS_202''
           then Inr \<lparr>device_id = JStr d, lat = Fin 11.1463, lon = Fin 77.5832, speed = Fin 0,
                     route_id = Some ''ROUTE_002'', updated = now, status = ''stopped''\<rparr>
           else Inl BusNotFound))"
  by (simp add: init_defs get_location_def)

theorem initial_get_location_witness:
  "\<exists>s. initial_state 1000 = Some s \<and>
       get_location ''BUS_202'' s =
         Inr \<lparr>device_id = JStr ''BUS_202'', lat = Fin 11.1463, lon = Fin 77.5832, speed = Fin 0,
              route_id = Some ''ROUTE_002'', updated = 1000, status = ''stopped''\<rparr> \<and>
       get_location ''BUS_999'' s = Inl BusNotFound"
proof -
  obtain s where s: "initial_state 1000 = Some s" and
    g: "\<And>d. get_location d s =
          (if d = ''BUS_101'' \<or> d = ''BUS_102''
           then Inr \<lparr>device_id = JStr d, lat = Fin 11.1563, lon = Fin 77.5932, speed = Fin 0,
                     route_id = Some ''ROUTE_001'', updated = 1000, status = ''stopped''\<rparr>
           else if d = ''BUS_201'' \<or> d = ''BUS_202''
           then Inr \<lparr>device_id = JStr d, lat = Fin 11.1463, lon = Fin 77.5832, speed = Fin 0,
                     route_id = Some ''ROUTE_002'', updated = 1000, status = ''stopped''\<rparr>
           else Inl BusNotFound)"
    using initial_get_location [of 1000] by blast
  have "get_location ''BUS_202'' s =
         Inr \<lparr>device_id = JStr ''BUS_202'', lat = Fin 11.1463, lon = Fin 77.5832, speed = Fin 0,
              route_id = Some ''ROUTE_002'', updated = 1000, status = ''stopped''\<rparr>"
    by (simp add: g)
  moreover have "get_location ''BUS_999'' s = Inl BusNotFound"
    by (simp add: g)
  ultimately show ?thesis using s by blast
qed

text \<open>
  The claim as it was stated fails on \<^verbatim>\<open>BUS_101\<close>: before any ingest or tick, the lookup
  returns the seeded record.
\<close>

theorem initial_get_location_counterexample:
  "map_option (get_location ''BUS_101'') (initial_state 0) =
     Some (Inr \<lparr>device_id = JStr ''BUS_101'', lat = Fin 11.1563, lon = Fin 77.5932,
                speed = Fin 0, route_id = Some ''ROUTE_001'', updated = 0,
                status = ''stopped''\<rparr>) \<and>
   map_option (get_location ''BUS_101'') (initial_state 0) \<noteq> Some (Inl BusNotFound)"
  by (simp add: init_defs get_location_def)

section \<open>One tick of the simulation\<close>

lemma simulate_entries_keys: "map fst (simulate_entries env i m) = map fst m"
  by (induction m arbitrary: i) auto

lemma simulate_entries_lookup:
  "\<exists>j. map_of (simulate_entries env i m) k =
         map_option (\<lambda>l. if status l = ''active'' then move (env j) l else l) (map_of m k)"
proof (induction m arbitrary: i)
  case Nil
  then show ?case by simp
next
  case (Cons p m)
  obtain k' l where p: "p = (k', l)" by (cases p)
  show ?case
  proof (cases "k' = k")
    case True
    then show ?thesis using p by auto
  next
    case False
    then show ?thesis using p Cons.IH [of i] Cons.IH [of "Suc i"] by auto
  qed
qed

lemma move_eq:
  "move e l =
     l\<lparr>lat := js_add (lat l) (Fin ((rnd_lat e - 0.5) * 0.001)),
       lon := js_add (lon l) (Fin ((rnd_lon e - 0.5) * 0.001)),
       speed := Math_max (Fin 0) (js_add (speed l) (Fin ((rnd_speed e - 0.5) * 10))),
       updated := clock e\<rparr>"
  by (simp add: move_def js_sub_def Let_def)

lemma simulate_tick_entry:
  assumes "valid_draws e"
  shows "\<exists>dlat dlon d.
           - 0.0005 \<le> dlat \<and> dlat < 0.0005 \<and> - 0.0005 \<le> dlon \<and> dlon < 0.0005 \<and>
           - 5 \<le> d \<and> d < 5 \<and>
           move e l =
             l\<lparr>lat := js_add (lat l) (Fin dlat), lon := js_add (lon l) (Fin dlon),
               speed := Math_max (Fin 0) (js_add (speed l) (Fin d)), updated := clock e\<rparr>"
proof (intro exI conjI)
  show "move e l =
     l\<lparr>lat := js_add (lat l) (Fin ((rnd_lat e - 0.5) * 0.001)),
       lon := js_add (lon l) (Fin ((rnd_lon e - 0.5) * 0.001)),
       speed := Math_max (Fin 0) (js_add (speed l) (Fin ((rnd_speed e - 0.5) * 10))),
       updated := clock e\<rparr>"
    by (rule move_eq)
  show "- 0.0005 \<le> (rnd_lat e - 0.5) * 0.001" "(rnd_lat e - 0.5) * 0.001 < 0.0005"
    "- 0.0005 \<le> (rnd_lon e - 0.5) * 0.001" "(rnd_lon e - 0.5) * 0.001 < 0.0005"
    "- 5 \<le> (rnd_speed e - 0.5) * 10" "(rnd_speed e - 0.5) * 10 < 5"
    using assms by (simp_all add: valid_draws_def)
qed

text \<open>
  Claim C7, as amended. One tick leaves the route registry and the keys of the store as
  they are. A record whose status is not \<open>active\<close> is unchanged in every field. A record
  whose status is \<open>active\<close> has \<open>lat\<close> and \<open>lon\<close> each moved by an amount that is at
  least \<open>-0.0005\<close> and less than \<open>0.0005\<close> (so by at most \<open>0.0005\<close>, the bound being
  reached when the draw is 0), its speed replaced by \<open>max(0, speed + d)\<close> for some \<open>d\<close>
  with \<open>-5 \<le> d < 5\<close>, and \<open>updated\<close> set to the clock reading taken at the visit; no
  other field is modified. The draws are those of \<^verbatim>\<open>Math.random()\<close>, at least 0 and less
  than 1.
\<close>

theorem simulate_tick_frame:
  assumes "\<forall>i. valid_draws (env i)"
  shows "busRoutes (simulateBusMovement env s) = busRoutes s \<and>
         map fst (busLocations (simulateBusMovement env s)) = map fst (busLocations s) \<and>
         (\<forall>k. case map_of (busLocations s) k of
                 None \<Rightarrow> map_of (busLocations (simulateBusMovement env s)) k = None
               | Some l \<Rightarrow>
                   if status l = ''active''
                   then \<exists>dlat dlon d j.
                          - 0.0005 \<le> dlat \<and> dlat < 0.0005 \<and> - 0.0005 \<le> dlon \<and> dlon < 0.0005 \<and>
                          - 5 \<le> d \<and> d < 5 \<and>
                          map_of (busLocations (simulateBusMovement env s)) k =
                            Some (l\<lparr>lat := js_add (lat l) (Fin dlat),
                                    lon := js_add (lon l) (Fin dlon),
                                    speed := Math_max (Fin 0) (js_add (speed l) (Fin d)),
                                    updated := clock (env j)\<rparr>)
                   else map_of (busLocations (simulateBusMovement env s)) k = Some l)"
proof (intro conjI allI)
  show "busRoutes (simulateBusMovement env s) = busRoutes s"
    by (simp add: simulateBusMovement_def)
  show "map fst (busLocations (simulateBusMovement env s)) = map fst (busLocations s)"
    by (simp add: simulateBusMovement_def simulate_entries_keys)
  fix k
  obtain j where j: "map_of (simulate_entries env 0 (busLocations s)) k =
         map_option (\<lambda>l. if status l = ''active'' then move (env j) l else l)
           (map_of (busLocations s) k)"
    using simulate_entries_lookup by blast
  have new: "busLocations (simulateBusMovement env s) = simulate_entries env 0 (busLocations s)"
    by (simp add: simulateBusMovement_def)
  show "case map_of (busLocations s) k of
                 None \<Rightarrow> map_of (busLocations (simulateBusMovement env s)) k = None
               | Some l \<Rightarrow>
                   if status l = ''active''
                   then \<exists>dlat dlon d j.
                          - 0.0005 \<le> dlat \<and> dlat < 0.0005 \<and> - 0.0005 \<le> dlon \<and> dlon < 0.0005 \<and>
                          - 5 \<le> d \<and> d < 5 \<and>
                          map_of (busLocations (simulateBusMovement env s)) k =
                            Some (l\<lparr>lat := js_add (lat l) (Fin dlat),
                                    lon := js_add (lon l) (Fin dlon),
                                    speed := Math_max (Fin 0) (js_add (speed l) (Fin d)),
                                    updated := clock (env j)\<rparr>)
                   else map_of (busLocations (simulateBusMovement env s)) k = Some l"
  proof (cases "map_of (busLocations s) k")
    case None
    then show ?thesis using j new by simp
  next
    case (Some l)
    show ?thesis
    proof (cases "status l = ''active''")
      case False
      then show ?thesis using j new Some by simp
    next
      case True
      have m: "map_of (busLocations (simulateBusMovement env s)) k = Some (move (env j) l)"
        using j new Some True by simp
      have "valid_draws (env j)" using assms by simp
      then obtain dlat dlon d where
        b: "- 0.0005 \<le> dlat" "dlat < 0.0005" "- 0.0005 \<le> dlon" "dlon < 0.0005" "- 5 \<le> d" "d < 5"
        and e: "move (env j) l =
             l\<lparr>lat := js_add (lat l) (Fin dlat), lon := js_add (lon l) (Fin dlon),
               speed := Math_max (Fin 0) (js_add (speed l) (Fin d)), updated := clock (env j)\<rparr>"
        using simulate_tick_entry [of "env j" l] by blast
      have "\<exists>dlat dlon d j.
                          - 0.0005 \<le> dlat \<and> dlat < 0.0005 \<and> - 0.0005 \<le> dlon \<and> dlon < 0.0005 \<and>
                          - 5 \<le> d \<and> d < 5 \<and>
                          map_of (busLocations (simulateBusMovement env s)) k =
                            Some (l\<lparr>lat := js_add (lat l) (Fin dlat),
                                    lon := js_add (lon l) (Fin dlon),
                                    speed := Math_max (Fin 0) (js_add (speed l) (Fin d)),
                                    updated := clock (env j)\<rparr>)"
        using b e m by (intro exI [of _ dlat] exI [of _ dlon] exI [of _ d] exI [of _ j]) simp
      then show ?thesis using Some True by simp
    qed
  qed
qed

theorem simulate_tick_frame_witness:
  "map_of (busLocations (simulateBusMovement
       (\<lambda>i. \<lparr>rnd_lat = 0.75, rnd_lon = 0.25, rnd_speed = 0.9, clock = 9000 + i\<rparr>)
       (snd (ingest 1000
          \<lparr>body_device_id = JStr ''BUS_101'', body_lat = JNum (Fin 11), body_lon = JNum (Fin 77),
           body_speed = JNum (Fin 10)\<rparr> (the (initial_state 0)))))) (JStr ''BUS_102'') =
     Some \<lparr>device_id = JStr ''BUS_102'', lat = Fin 11.1563, lon = Fin 77.5932, speed = Fin 0,
           route_id = Some ''ROUTE_001'', updated = 0, status = ''stopped''\<rparr> \<and>
   (\<exists>dlat dlon d j.
       - 0.0005 \<le> dlat \<and> dlat < 0.0005 \<and> - 0.0005 \<le> dlon \<and> dlon < 0.0005 \<and>
       - 5 \<le> d \<and> d < 5 \<and>
       map_of (busLocations (simulateBusMovement
         (\<lambda>i. \<lparr>rnd_lat = 0.75, rnd_lon = 0.25, rnd_speed = 0.9, clock = 9000 + i\<rparr>)
         (snd (ingest 1000
            \<lparr>body_device_id = JStr ''BUS_101'', body_lat = JNum (Fin 11), body_lon = JNum (Fin 77),
             body_speed = JNum (Fin 10)\<rparr> (the (initial_state 0)))))) (JStr ''BUS_101'') =
       Some \<lparr>device_id = JStr ''BUS_101'', lat = Fin (11 + dlat), lon = Fin (77 + dlon),
             speed = Math_max (Fin 0) (Fin (10 + d)), route_id = Some ''ROUTE_001'',
             updated = 9000 + j, status = ''active''\<rparr>)"
proof -
  let ?env = "\<lambda>i::nat. \<lparr>rnd_lat = 0.75, rnd_lon = 0.25, rnd_speed = 0.9, clock = 9000 + i\<rparr>"
  let ?s = "snd (ingest 1000
          \<lparr>body_device_id = JStr ''BUS_101'', body_lat = JNum (Fin 11), body_lon = JNum (Fin 77),
           body_speed = JNum (Fin 10)\<rparr> (the (initial_state 0)))"
  have v: "\<forall>i. valid_draws (?env i)" by (simp add: valid_draws_def)
  have s: "map_of (busLocations ?s) (JStr ''BUS_102'') =
      Some \<lparr>device_id = JStr ''BUS_102'', lat = Fin 11.1563, lon = Fin 77.5932, speed = Fin 0,
           route_id = Some ''ROUTE_001'', updated = 0, status = ''stopped''\<rparr>"
    "map_of (busLocations ?s) (JStr ''BUS_101'') =
      Some \<lparr>device_id = JStr ''BUS_101'', lat = Fin 11, lon = Fin 77, speed = Fin 10,
           route_id = Some ''ROUTE_001'', updated = 1000, status = ''active''\<rparr>"
    by (simp_all add: init_defs ingest_def or_zero_def Let_def)
  from simulate_tick_frame [OF v, of ?s]
  have k: "\<And>k. case map_of (busLocations ?s) k of
                 None \<Rightarrow> map_of (busLocations (simulateBusMovement ?env ?s)) k = None
               | Some l \<Rightarrow>
                   if status l = ''active''
                   then \<exists>dlat dlon d j.
                          - 0.0005 \<le> dlat \<and> dlat < 0.0005 \<and> - 0.0005 \<le> dlon \<and> dlon < 0.0005 \<and>
                          - 5 \<le> d \<and> d < 5 \<and>
                          map_of (busLocations (simulateBusMovement ?env ?s)) k =
                            Some (l\<lparr>lat := js_add (lat l) (Fin dlat),
                                    lon := js_add (lon l) (Fin dlon),
                                    speed := Math_max (Fin 0) (js_add (speed l) (Fin d)),
                                    updated := clock (?env j)\<rparr>)
                   else map_of (busLocations (simulateBusMovement ?env ?s)) k = Some l"
    by blast
  from k [of "JStr ''BUS_102''"] k [of "JStr ''BUS_101''"] show ?thesis
    by (simp only: s option.case) simp
qed

text \<open>
  The claim as it was stated asks for changes strictly below the bounds and for a
  timestamp that advances. With the three draws equal to 0, and the tick reading the same
  millisecond as the ingest before it, \<open>lat\<close> and \<open>lon\<close> move by exactly \<open>0.0005\<close>, the
  speed by exactly \<open>5\<close>, and \<open>updated\<close> stays where it was.
\<close>

theorem simulate_tick_counterexample:
  "get_location ''BUS_101''
     (snd (ingest 1000
        \<lparr>body_device_id = JStr ''BUS_101'', body_lat = JNum (Fin 11), body_lon = JNum (Fin 77),
         body_speed = JNum (Fin 10)\<rparr> (the (initial_state 0)))) =
     Inr \<lparr>device_id = JStr ''BUS_101'', lat = Fin 11, lon = Fin 77, speed = Fin 10,
          route_id = Some ''ROUTE_001'', updated = 1000, status = ''active''\<rparr> \<and>
   get_location ''BUS_101''
     (simulateBusMovement (\<lambda>i. \<lparr>rnd_lat = 0, rnd_lon = 0, rnd_speed = 0, clock = 1000\<rparr>)
       (snd (ingest 1000
          \<lparr>body_device_id = JStr ''BUS_101'', body_lat = JNum (Fin 11), body_lon = JNum (Fin 77),
           body_speed = JNum (Fin 10)\<rparr> (the (initial_state 0))))) =
     Inr \<lparr>device_id = JStr ''BUS_101'', lat = Fin (11 - 0.0005), lon = Fin (77 - 0.0005),
          speed = Fin (10 - 5), route_id = Some ''ROUTE_001'', updated = 1000,
          status = ''active''\<rparr> \<and>
   valid_draws \<lparr>rnd_lat = 0, rnd_lon = 0, rnd_speed = 0, clock = 1000\<rparr> \<and>
   \<not> \<bar>(11 - 0.0005) - 11\<bar> < (0.0005 :: real) \<and>
   \<not> \<bar>(10 - 5) - 10\<bar> < (5 :: real) \<and>
   \<not> (1000 :: nat) < 1000"
  by (simp add: init_defs ingest_def or_zero_def Let_def get_location_def
      simulateBusMovement_def move_def js_sub_def valid_draws_def)

section \<open>Status and speed after a tick\<close>

text \<open>
  Claim C1: a record's status is \<open>active\<close> iff its speed is greater than 0 as of the last
  write. The tick does not keep this: it writes the speed and leaves the status. When a
  record is \<open>active\<close> with a finite speed \<open>x\<close> and every draw for the speed brings
  \<open>x + d\<close> to 0 or below, the record after the tick has speed 0 and is still \<open>active\<close>.
\<close>

theorem tick_keeps_active_at_speed_zero:
  assumes "map_of (busLocations s) k = Some l" and "status l = ''active''"
    and "speed l = Fin x"
    and "\<forall>i. valid_draws (env i) \<and> x + (rnd_speed (env i) - 0.5) * 10 \<le> 0"
  shows "\<exists>l'. map_of (busLocations (simulateBusMovement env s)) k = Some l' \<and>
              status l' = ''active'' \<and> speed l' = Fin 0 \<and> \<not> js_gt (speed l') (Fin 0)"
proof -
  obtain j where j: "map_of (simulate_entries env 0 (busLocations s)) k =
         map_option (\<lambda>l. if status l = ''active'' then move (env j) l else l)
           (map_of (busLocations s) k)"
    using simulate_entries_lookup by blast
  have "map_of (busLocations (simulateBusMovement env s)) k = Some (move (env j) l)"
    using j assms(1,2) by (simp add: simulateBusMovement_def)
  moreover have "x + (rnd_speed (env j) - 0.5) * 10 \<le> 0" using assms(4) by simp
  then have "speed (move (env j) l) = Fin 0"
    using assms(3) by (simp add: move_eq)
  moreover have "status (move (env j) l) = ''active''"
    using assms(2) by (simp add: move_eq)
  ultimately show ?thesis by simp
qed

theorem tick_keeps_active_at_speed_zero_witness:
  "\<exists>l'. map_of (busLocations (simulateBusMovement
             (\<lambda>i. \<lparr>rnd_lat = 0.5, rnd_lon = 0.5, rnd_speed = 0.1, clock = 9000\<rparr>)
             (snd (ingest 1000
                \<lparr>body_device_id = JStr ''BUS_101'', body_lat = JNum (Fin 11),
                 body_lon = JNum (Fin 77), body_speed = JNum (Fin 2)\<rparr>
                (the (initial_state 0)))))) (JStr ''BUS_101'') = Some l' \<and>
        status l' = ''active'' \<and> speed l' = Fin 0 \<and> \<not> js_gt (speed l') (Fin 0)"
  using tick_keeps_active_at_speed_zero [of
      "snd (ingest 1000
                \<lparr>body_device_id = JStr ''BUS_101'', body_lat = JNum (Fin 11),
                 body_lon = JNum (Fin 77), body_speed = JNum (Fin 2)\<rparr>
                (the (initial_state 0)))"
      "JStr ''BUS_101''"
      "\<lparr>device_id = JStr ''BUS_101'', lat = Fin 11, lon = Fin 77, speed = Fin 2,
           route_id = Some ''ROUTE_001'', updated = 1000, status = ''active''\<rparr>"
      2 "\<lambda>i. \<lparr>rnd_lat = 0.5, rnd_lon = 0.5, rnd_speed = 0.1, clock = 9000\<rparr>"]
  by (simp add: init_defs ingest_def or_zero_def Let_def valid_draws_def)

section \<open>The sign of an ingested speed\<close>

lemma Math_max_zero_not_negative: "\<not> js_gt (Fin 0) (Math_max (Fin 0) n)"
  by (cases n) simp_all

lemma move_speed_not_negative: "\<not> js_gt (Fin 0) (speed (move e l))"
  by (simp add: move_eq Math_max_zero_not_negative)

text \<open>
  Claim C9: the speed of a stored record is never negative. Ingest does not keep this:
  a supplied speed that parses to a negative number \<open>x\<close> is stored as \<open>x\<close> (the tick, in
  contrast, clamps the speed it writes with \<^verbatim>\<open>Math.max(0, ...)\<close>).
\<close>

theorem ingest_stores_negative_speed:
  assumes "truthy d" and "\<not> isNaN (parseFloat la)" and "\<not> isNaN (parseFloat lo)"
    and "parseFloat sp = Fin x" and "x < 0"
  shows "\<exists>r. ingest now \<lparr>body_device_id = d, body_lat = la, body_lon = lo, body_speed = sp\<rparr> s =
               (Inr r, s\<lparr>busLocations := map_set (busLocations s) d r\<rparr>) \<and>
             speed r = Fin x \<and> js_gt (Fin 0) (speed r)"
proof -
  have "la \<noteq> JUndefined" "lo \<noteq> JUndefined" using assms(2,3) by auto
  then show ?thesis using assms by (simp add: ingest_def Let_def or_zero_def)
qed

theorem ingest_stores_negative_speed_witness:
  "get_location ''BUS_101''
     (snd (ingest 1000
        \<lparr>body_device_id = JStr ''BUS_101'', body_lat = JNum (Fin 11), body_lon = JNum (Fin 77),
         body_speed = JStr ''-5''\<rparr> (the (initial_state 0)))) =
     Inr \<lparr>device_id = JStr ''BUS_101'', lat = Fin 11, lon = Fin 77, speed = Fin (- 5),
          route_id = Some ''ROUTE_001'', updated = 1000, status = ''stopped''\<rparr>"
proof -
  obtain r where r: "ingest 1000
        \<lparr>body_device_id = JStr ''BUS_101'', body_lat = JNum (Fin 11), body_lon = JNum (Fin 77),
         body_speed = JStr ''-5''\<rparr> (the (initial_state 0)) =
      (Inr r, (the (initial_state 0))\<lparr>busLocations :=
         map_set (busLocations (the (initial_state 0))) (JStr ''BUS_101'') r\<rparr>)"
    and "speed r = Fin (- 5)"
    using ingest_stores_negative_speed [of "JStr ''BUS_101''" "JNum (Fin 11)" "JNum (Fin 77)"
        "JStr ''-5''" "- 5" 1000 "the (initial_state 0)"]
    by (auto simp add: parse_defs)
  then show ?thesis
    by (simp add: get_location_def map_of_map_set)
       (simp add: ingest_def init_defs parse_defs or_zero_def Let_def)
qed

section \<open>Route search\<close>

lemma includes_str_iff: "includes_str s sub \<longleftrightarrow> sublist sub s"
  by (induction s) (auto simp add: sublist_Cons_right)

lemma route_matches_iff:
  "route_matches from to r \<longleftrightarrow>
     (\<exists>st \<in> set (stops r). sublist (toLowerCase from) (toLowerCase (stop_name st))) \<and>
     (\<exists>st \<in> set (stops r). sublist (toLowerCase to) (toLowerCase (stop_name st)))"
  by (simp add: route_matches_def list_ex_iff includes_str_iff Bex_def)

lemma route_matches_commute: "route_matches from to r = route_matches to from r"
  by (auto simp add: route_matches_iff)

lemma route_matches_stops: "route_matches from to r \<Longrightarrow> stops r \<noteq> []"
  by (auto simp add: route_matches_iff)

lemma route_matches_cong_stops: "stops r = stops r' \<Longrightarrow> route_matches from to r = route_matches from to r'"
  by (simp add: route_matches_iff)

lemma those_map_defined:
  "(\<And>x. x \<in> set xs \<Longrightarrow> f x \<noteq> None) \<Longrightarrow>
   those (map f xs) = Some (map (\<lambda>x. the (f x)) xs)"
proof (induction xs)
  case Nil
  then show ?case by simp
next
  case (Cons a xs)
  have "f a \<noteq> None" using Cons.prems [of a] by simp
  then obtain y where "f a = Some y" by blast
  moreover have "those (map f xs) = Some (map (\<lambda>x. the (f x)) xs)"
    using Cons by simp
  ultimately show ?case by simp
qed

lemma route_entry_stops: "route_entry fp s r = Some res \<Longrightarrow> res_stops res = stops r"
  by (auto simp add: route_entry_def split: option.splits)

lemma bus_entry_defined: "stops r \<noteq> [] \<Longrightarrow> bus_entry fp s r busId \<noteq> None"
  by (simp add: bus_entry_def split: option.splits list.splits)

lemma route_entry_Some:
  assumes "stops r \<noteq> []"
  shows "route_entry fp s r =
     Some \<lparr>res_route_id = route_ident r, res_route_name = route_name r,
           res_buses = map (\<lambda>busId. the (bus_entry fp s r busId)) (buses r),
           res_stops = stops r\<rparr>"
proof -
  have "those (map (bus_entry fp s r) (buses r)) =
          Some (map (\<lambda>busId. the (bus_entry fp s r busId)) (buses r))"
    using assms by (intro those_map_defined bus_entry_defined)
  then show ?thesis by (simp add: route_entry_def)
qed

lemma search_value:
  assumes "f \<noteq> []" and "t \<noteq> []"
  shows "search fp (Some f) (Some t) s =
     Inr (map (\<lambda>r. the (route_entry fp s r)) (matchingRoutes f t s))"
proof -
  have "route_entry fp s r \<noteq> None" if "r \<in> set (matchingRoutes f t s)" for r
  proof -
    have "stops r \<noteq> []"
      using that by (auto simp add: matchingRoutes_def dest: route_matches_stops)
    then show ?thesis by (simp add: route_entry_Some)
  qed
  then have "those (map (route_entry fp s) (matchingRoutes f t s)) =
     Some (map (\<lambda>r. the (route_entry fp s r)) (matchingRoutes f t s))"
    by (rule those_map_defined)
  then show ?thesis using assms by (simp add: search_def)
qed

lemma matchingRoutes_commute: "matchingRoutes f t s = matchingRoutes t f s"
proof -
  have "route_matches f t = route_matches t f"
    by (rule ext) (rule route_matches_commute)
  then show ?thesis by (simp add: matchingRoutes_def)
qed

lemma lower_simps:
  "toLowerCase ''city'' = ''city''" "toLowerCase ''airport'' = ''airport''"
  "toLowerCase ''Airport'' = ''airport''" "toLowerCase ''City'' = ''city''"
  "toLowerCase ''Nowhere'' = ''nowhere''"
  "toLowerCase ''City Center'' = ''city center''"
  "toLowerCase ''Main Market'' = ''main market''"
  "toLowerCase ''University'' = ''university''"
  "toLowerCase ''Railway Station'' = ''railway station''"
  "toLowerCase ''Shopping Mall'' = ''shopping mall''"
  "toLowerCase ''Hospital'' = ''hospital''"
  "toLowerCase ''Tech Park'' = ''tech park''"
  by (simp_all add: toLowerCase_def lower_char_def)

lemma sample_matching:
  assumes "busRoutes s = map (\<lambda>r. (route_ident r, r)) sampleRoutes"
  shows "map route_ident (matchingRoutes ''city'' ''airport'' s) = [''ROUTE_001'']"
    "map route_ident (matchingRoutes ''Airport'' ''City'' s) = [''ROUTE_001'']"
    "matchingRoutes ''Nowhere'' ''Airport'' s = []"
  using assms by (simp_all add: matchingRoutes_def sampleRoutes_def route_matches_def lower_simps)


lemma result_ids:
  "map (\<lambda>r. res_route_id (the (route_entry fp s r))) (matchingRoutes f t s) =
   map route_ident (matchingRoutes f t s)"
proof (rule map_cong [OF refl])
  fix r
  assume "r \<in> set (matchingRoutes f t s)"
  then have "stops r \<noteq> []"
    by (auto simp add: matchingRoutes_def dest: route_matches_stops)
  then show "res_route_id (the (route_entry fp s r)) = route_ident r"
    by (simp add: route_entry_Some)
qed

text \<open>
  Claim C6. For non-empty \<open>from\<close> and \<open>to\<close> the search succeeds, and a route of the
  registry has its entry in the result iff one of its stop names, in lower case, contains
  the lower-case \<open>from\<close> as a substring, and one contains the lower-case \<open>to\<close>. The match
  does not depend on the order of the stops in the list (two routes with the same set of
  stops match alike), and exchanging \<open>from\<close> and \<open>to\<close> gives the same result. On the
  sample registry, whatever the store holds and whatever the arithmetic of the ETAs,
  \<^verbatim>\<open>search("city", "airport")\<close> and \<^verbatim>\<open>search("Airport", "City")\<close> both return the one route
  \<^verbatim>\<open>ROUTE_001\<close>, and \<^verbatim>\<open>search("Nowhere", "Airport")\<close> returns the empty sequence.
\<close>

theorem search_matches:
  assumes "from \<noteq> []" and "to \<noteq> []"
  shows "(\<exists>results. search fp (Some from) (Some to) s = Inr results \<and>
            (\<forall>r \<in> set (map snd (busRoutes s)).
               (\<exists>res \<in> set results. route_entry fp s r = Some res) \<longleftrightarrow>
               (\<exists>st \<in> set (stops r). sublist (toLowerCase from) (toLowerCase (stop_name st))) \<and>
               (\<exists>st \<in> set (stops r). sublist (toLowerCase to) (toLowerCase (stop_name st))))) \<and>
         search fp (Some from) (Some to) s = search fp (Some to) (Some from) s \<and>
         (\<forall>r r'. set (stops r) = set (stops r') \<longrightarrow>
                 route_matches from to r = route_matches from to r') \<and>
         (busRoutes s = map (\<lambda>r. (route_ident r, r)) sampleRoutes \<longrightarrow>
            map_sum id (map res_route_id) (search fp (Some ''city'') (Some ''airport'') s) =
              Inr [''ROUTE_001''] \<and>
            map_sum id (map res_route_id) (search fp (Some ''Airport'') (Some ''City'') s) =
              Inr [''ROUTE_001''] \<and>
            search fp (Some ''Nowhere'') (Some ''Airport'') s = Inr [])"
proof (intro conjI impI)
  let ?entry = "\<lambda>r. the (route_entry fp s r)"
  let ?results = "map ?entry (matchingRoutes from to s)"
  have val: "search fp (Some from) (Some to) s = Inr ?results"
    using assms by (rule search_value)
  have "(\<exists>res \<in> set ?results. route_entry fp s r = Some res) \<longleftrightarrow> route_matches from to r"
    if r: "r \<in> set (map snd (busRoutes s))" for r
  proof
    assume "\<exists>res \<in> set ?results. route_entry fp s r = Some res"
    then obtain r' where r': "r' \<in> set (matchingRoutes from to s)"
      and e: "route_entry fp s r = Some (?entry r')"
      by auto
    have m': "route_matches from to r'" using r' by (simp add: matchingRoutes_def)
    have "stops r' \<noteq> []" using m' by (rule route_matches_stops)
    then have "res_stops (?entry r') = stops r'" by (simp add: route_entry_Some)
    moreover have "res_stops (?entry r') = stops r"
      using e by (rule route_entry_stops)
    ultimately have "stops r = stops r'" by simp
    then show "route_matches from to r" using m' route_matches_cong_stops by blast
  next
    assume m: "route_matches from to r"
    then have "r \<in> set (matchingRoutes from to s)" using r by (simp add: matchingRoutes_def)
    moreover have "route_entry fp s r = Some (?entry r)"
      using m by (simp add: route_entry_Some route_matches_stops)
    ultimately show "\<exists>res \<in> set ?results. route_entry fp s r = Some res" by auto
  qed
  then show "\<exists>results. search fp (Some from) (Some to) s = Inr results \<and>
            (\<forall>r \<in> set (map snd (busRoutes s)).
               (\<exists>res \<in> set results. route_entry fp s r = Some res) \<longleftrightarrow>
               (\<exists>st \<in> set (stops r). sublist (toLowerCase from) (toLowerCase (stop_name st))) \<and>
               (\<exists>st \<in> set (stops r). sublist (toLowerCase to) (toLowerCase (stop_name st))))"
    using val by (simp add: route_matches_iff)
  show "search fp (Some from) (Some to) s = search fp (Some to) (Some from) s"
    using assms by (simp add: search_value matchingRoutes_commute [of _ _ s])
  show "\<forall>r r'. set (stops r) = set (stops r') \<longrightarrow>
                 route_matches from to r = route_matches from to r'"
    by (simp add: route_matches_iff)
next
  assume reg: "busRoutes s = map (\<lambda>r. (route_ident r, r)) sampleRoutes"
  show "map_sum id (map res_route_id) (search fp (Some ''city'') (Some ''airport'') s) =
              Inr [''ROUTE_001'']"
    using sample_matching(1) [OF reg] by (simp add: search_value comp_def result_ids)
  show "map_sum id (map res_route_id) (search fp (Some ''Airport'') (Some ''City'') s) =
              Inr [''ROUTE_001'']"
    using sample_matching(2) [OF reg] by (simp add: search_value comp_def result_ids)
  show "search fp (Some ''Nowhere'') (Some ''Airport'') s = Inr []"
    using sample_matching(3) [OF reg] by (simp add: search_value)
qed

theorem search_matches_witness:
  "search exact_math (Some ''univ'') (Some ''market'') (the (initial_state 0)) =
     search exact_math (Some ''market'') (Some ''univ'') (the (initial_state 0)) \<and>
   map_sum id (map res_route_id)
     (search exact_math (Some ''city'') (Some ''airport'') (the (initial_state 0))) = Inr [''ROUTE_001''] \<and>
   map_sum id (map res_route_id)
     (search exact_math (Some ''Airport'') (Some ''City'') (the (initial_state 0))) = Inr [''ROUTE_001''] \<and>
   search exact_math (Some ''Nowhere'') (Some ''Airport'') (the (initial_state 0)) = Inr []"
proof -
  have n: "''univ'' \<noteq> []" "''market'' \<noteq> []" by simp_all
  have reg: "busRoutes (the (initial_state 0)) = map (\<lambda>r. (route_ident r, r)) sampleRoutes"
    by (simp add: init_defs)
  from search_matches [OF n, of exact_math "the (initial_state 0)"] reg show ?thesis by blast
qed

section \<open>The estimated time of arrival\<close>














end
